theory Spec2Isabelle
  imports Complex_Main "HOL-Library.Word"
begin

section \<open>Values of the source language\<close>

text \<open>
  The program is a TypeScript component (\<^verbatim>\<open>src/src/App.tsx\<close>, the part after the
  separator line: the \<^verbatim>\<open>WeatherMap\<close> component).  A string of the source is a
  sequence of UTF-16 code units.  A number of the source is either a finite number, read
  here as the real number it denotes, or NaN; the infinities are left out.  On a finite
  number \<^verbatim>\<open>Math.round\<close> gives exactly the integer that rounding the real number gives.
  Reading a missing array element gives \<^verbatim>\<open>undefined\<close>, which both consumers of such a
  read in this program (\<^verbatim>\<open>Math.round\<close> and the comparisons of
  \<^verbatim>\<open>weatherCodeToCondition\<close>) treat as they treat NaN.
\<close>

type_synonym jsstring = "16 word list"

datatype jsnum = Num real | NaN

text \<open>The strict equality \<^verbatim>\<open>===\<close> on numbers: NaN is equal to nothing, itself included.\<close>

fun strict_eq :: "jsnum \<Rightarrow> jsnum \<Rightarrow> bool" where
  "strict_eq (Num x) (Num y) = (x = y)"
| "strict_eq (Num x) NaN = False"
| "strict_eq NaN b = False"

text \<open>\<^verbatim>\<open>xs[i]\<close> on an array of numbers: out of range it is \<^verbatim>\<open>undefined\<close>.\<close>

definition nth_num :: "jsnum list \<Rightarrow> nat \<Rightarrow> jsnum" where
  "nth_num xs i = (if i < length xs then xs ! i else NaN)"

text \<open>\<^verbatim>\<open>xs[i]\<close> on an array of strings, with \<open>None\<close> for \<^verbatim>\<open>undefined\<close>.\<close>

definition nth_str :: "jsstring list \<Rightarrow> nat \<Rightarrow> jsstring option" where
  "nth_str xs i = (if i < length xs then Some (xs ! i) else None)"

text \<open>
  \<^verbatim>\<open>Math.round\<close>: the integer closest to the argument, the one towards plus infinity
  when two are equally close; NaN for NaN and for \<^verbatim>\<open>undefined\<close>.
\<close>

definition round_half_up :: "real \<Rightarrow> int" where
  "round_half_up x = \<lfloor>x + 1 / 2\<rfloor>"

fun Math_round :: "jsnum \<Rightarrow> jsnum" where
  "Math_round (Num x) = Num (of_int (round_half_up x))"
| "Math_round NaN = NaN"

section \<open>The string literals of the component\<close>

text \<open>The condition labels, lines 198 to 205, as code units.\<close>

definition label_clear :: jsstring where
  "label_clear = [0xB9D1, 0xC74C]"

definition label_partly_cloudy :: jsstring where
  "label_partly_cloudy = [0xAD6C, 0xB984, 0x20, 0xC870, 0xAE08]"

definition label_fog :: jsstring where
  "label_fog = [0xC548, 0xAC1C]"

definition label_rain :: jsstring where
  "label_rain = [0xBE44]"

definition label_snow :: jsstring where
  "label_snow = [0xB208]"

definition label_showers :: jsstring where
  "label_showers = [0xC18C, 0xB098, 0xAE30]"

definition label_thunderstorm :: jsstring where
  "label_thunderstorm = [0xB1CC, 0xC6B0]"

text \<open>The placeholder of line 231, the separator of line 230 and the name of line 67.\<close>

definition unknown_location :: jsstring where
  "unknown_location = [0xC54C, 0x20, 0xC218, 0x20, 0xC5C6, 0xB294, 0x20, 0xC704, 0xCE58]"

definition separator :: jsstring where
  "separator = [0x2C, 0x20]"

definition seoul :: jsstring where
  "seoul = [0xC11C, 0xC6B8]"

section \<open>Weather code to condition label\<close>

text \<open>
  Lines 197 to 206.  On NaN (and on \<^verbatim>\<open>undefined\<close>) the strict equality and every
  comparison are false, so the last \<^verbatim>\<open>return\<close> is reached.
\<close>

fun weatherCodeToCondition :: "jsnum \<Rightarrow> jsstring" where
  "weatherCodeToCondition (Num code) =
     (if code = 0 then label_clear
      else if code \<le> 3 then label_partly_cloudy
      else if code \<le> 48 then label_fog
      else if code \<le> 67 then label_rain
      else if code \<le> 77 then label_snow
      else if code \<le> 82 then label_showers
      else if code \<le> 86 then label_snow
      else label_thunderstorm)"
| "weatherCodeToCondition NaN = label_thunderstorm"

text \<open>The band table of the specification, section 4.1, one row per band, in order.\<close>

definition band_table :: "(int \<times> int \<times> jsstring) list" where
  "band_table =
     [(0, 0, label_clear),
      (1, 3, label_partly_cloudy),
      (4, 48, label_fog),
      (49, 67, label_rain),
      (68, 77, label_snow),
      (78, 82, label_showers),
      (83, 86, label_snow),
      (87, 99, label_thunderstorm)]"

text \<open>The label of the first band of a table that holds the code, if there is one.\<close>

fun first_band :: "(int \<times> int \<times> jsstring) list \<Rightarrow> int \<Rightarrow> jsstring option" where
  "first_band [] c = None"
| "first_band ((lo, hi, l) # bs) c = (if lo \<le> c \<and> c \<le> hi then Some l else first_band bs c)"

section \<open>Responses of the remote sources\<close>

text \<open>
  The weather response, as section 6 of the specification gives its shape and as lines
  236 to 253 read it: the \<^verbatim>\<open>current\<close> object and the \<^verbatim>\<open>daily\<close> arrays.  The arrays
  are independent lists; nothing makes them of one length.
\<close>

record current_weather =
  temperature_2m :: jsnum
  relative_humidity_2m :: jsnum
  apparent_temperature :: jsnum
  weather_code :: jsnum
  wind_speed_10m :: jsnum
  surface_pressure :: jsnum

record daily_weather =
  time :: "jsstring list"
  weather_code :: "jsnum list"
  temperature_2m_max :: "jsnum list"
  temperature_2m_min :: "jsnum list"
  sunrise :: "jsstring list"
  sunset :: "jsstring list"

record weatherData =
  current :: current_weather
  daily :: daily_weather

text \<open>
  The reverse-geocode response: an object that may have an \<^verbatim>\<open>address\<close>, itself an
  object from field names to strings.
\<close>

type_synonym address = "string \<rightharpoonup> jsstring"

record geoData =
  address :: "address option"

text \<open>An element of the forward-geocode response: its \<^verbatim>\<open>lat\<close> and \<^verbatim>\<open>lon\<close> strings.\<close>

record search_hit =
  hit_lat :: jsstring
  hit_lon :: jsstring

text \<open>
  What a \<^verbatim>\<open>fetch\<close> followed by \<^verbatim>\<open>json()\<close> gives: the \<^verbatim>\<open>fetch\<close> promise rejects (a
  network error), or there is a response with its \<^verbatim>\<open>ok\<close> flag and a body, \<open>None\<close> when
  \<^verbatim>\<open>json()\<close> rejects.
\<close>

datatype 'a http = NetworkError | Response bool "'a option"

datatype exn = FetchRejected | WeatherNotOk | JsonRejected | URIError

section \<open>The component's data\<close>

text \<open>Lines 19 to 49.\<close>

record WeatherData =
  location :: jsstring
  country :: jsstring
  temp :: jsnum
  feelsLike :: jsnum
  condition :: jsstring
  humidity :: jsnum
  windSpeed :: jsnum
  visibility :: jsnum
  pressure :: jsnum
  uv :: jsnum
  icon :: jsstring
  sunrise :: "jsstring option"
  sunset :: "jsstring option"

record ForecastDay =
  date :: jsstring
  maxTemp :: jsnum
  minTemp :: jsnum
  condition :: jsstring
  icon :: jsstring

record LocationData =
  name :: jsstring
  lat :: jsnum
  lon :: jsnum
  weather :: "WeatherData option"
  forecast :: "ForecastDay list option"

section \<open>The display name\<close>

text \<open>
  One line of lines 213 to 226: \<^verbatim>\<open>if (addr.k) locationParts.push(addr.k)\<close>.  A field is
  truthy when it is there and is not the empty string.
\<close>

definition push_field :: "address \<Rightarrow> string \<Rightarrow> jsstring list \<Rightarrow> jsstring list" where
  "push_field addr k locationParts =
     (case addr k of
        None \<Rightarrow> locationParts
      | Some v \<Rightarrow> if v = [] then locationParts else locationParts @ [v])"

definition locationParts :: "address \<Rightarrow> jsstring list" where
  "locationParts addr =
     (let parts = [];
          parts = push_field addr ''neighbourhood'' parts;
          parts = push_field addr ''suburb'' parts;
          parts = push_field addr ''village'' parts;
          parts = push_field addr ''hamlet'' parts;
          parts = push_field addr ''city_district'' parts;
          parts = push_field addr ''district'' parts;
          parts = push_field addr ''borough'' parts;
          parts = push_field addr ''city'' parts;
          parts = push_field addr ''town'' parts;
          parts = push_field addr ''county'' parts
      in parts)"

text \<open>\<^verbatim>\<open>Array.prototype.join\<close> on strings.\<close>

fun join :: "jsstring \<Rightarrow> jsstring list \<Rightarrow> jsstring" where
  "join sep [] = []"
| "join sep [x] = x"
| "join sep (x # y # ys) = x @ sep @ join sep (y # ys)"

text \<open>Lines 229 to 231.\<close>

definition locationName :: "address \<Rightarrow> jsstring" where
  "locationName addr =
     (if length (locationParts addr) > 0
      then join separator (take 2 (locationParts addr))
      else unknown_location)"

text \<open>
  The ten fields that lines 213 to 226 read, in the order of the pushes: neighbourhood,
  suburb, village and hamlet; then city district, district and borough; then city, town
  and county.  A field is populated when it is there and is not the empty string.
\<close>

definition priority_fields :: "string list" where
  "priority_fields =
     [''neighbourhood'', ''suburb'', ''village'', ''hamlet'',
      ''city_district'', ''district'', ''borough'',
      ''city'', ''town'', ''county'']"

definition populated :: "address \<Rightarrow> string \<Rightarrow> bool" where
  "populated addr k = (case addr k of None \<Rightarrow> False | Some v \<Rightarrow> v \<noteq> [])"

definition field_value :: "address \<Rightarrow> string \<Rightarrow> jsstring" where
  "field_value addr k = (case addr k of None \<Rightarrow> [] | Some v \<Rightarrow> v)"

definition populated_values :: "address \<Rightarrow> jsstring list" where
  "populated_values addr = map (field_value addr) (filter (populated addr) priority_fields)"

text \<open>The name made of the first two populated fields of the ten, in that order.\<close>

definition display_name_by_priority :: "address \<Rightarrow> jsstring" where
  "display_name_by_priority addr =
     (case populated_values addr of
        [] \<Rightarrow> unknown_location
      | [a] \<Rightarrow> a
      | a # b # rest \<Rightarrow> a @ separator @ b)"

text \<open>
  The priority list as the specification words it (section 4.1, step 4): nine fields,
  neighbourhood, suburb, village, hamlet, then district, borough, then city, town,
  county; and the display name that list gives: the first two populated fields of the nine
  joined by the separator, the placeholder when none of the nine is populated.
\<close>

definition spec_fields :: "string list" where
  "spec_fields =
     [''neighbourhood'', ''suburb'', ''village'', ''hamlet'',
      ''district'', ''borough'',
      ''city'', ''town'', ''county'']"

definition spec_values :: "address \<Rightarrow> jsstring list" where
  "spec_values addr = map (field_value addr) (filter (populated addr) spec_fields)"

definition display_name_spec :: "address \<Rightarrow> jsstring" where
  "display_name_spec addr =
     (case spec_values addr of
        [] \<Rightarrow> unknown_location
      | [a] \<Rightarrow> a
      | a # b # rest \<Rightarrow> a @ separator @ b)"

text \<open>Addresses with the city district populated, for the examples below.\<close>

definition district_only :: address where
  "district_only = [''city_district'' \<mapsto> [0x41]]"

definition suburb_district_city :: address where
  "suburb_district_city =
     [''suburb'' \<mapsto> [0x53], ''city_district'' \<mapsto> [0x44], ''city'' \<mapsto> [0x43]]"

section \<open>Assembling the location\<close>

text \<open>\<^verbatim>\<open>String.prototype.split\<close> with a separator of one code unit.\<close>

fun split :: "16 word \<Rightarrow> jsstring \<Rightarrow> jsstring list" where
  "split c [] = [[]]"
| "split c (x # xs) =
     (if x = c then [] # split c xs
      else (case split c xs of [] \<Rightarrow> [[x]] | p # ps \<Rightarrow> (x # p) # ps))"

text \<open>\<^verbatim>\<open>arr[0]?.split('T')[1]\<close> of lines 245 and 246.\<close>

definition time_of_day :: "jsstring list \<Rightarrow> jsstring option" where
  "time_of_day arr =
     (case nth_str arr 0 of None \<Rightarrow> None | Some s \<Rightarrow> nth_str (split 0x54 s) 1)"

text \<open>Line 209: \<^verbatim>\<open>geoData.address || {}\<close>.\<close>

definition addr_of :: "geoData \<Rightarrow> address" where
  "addr_of g = (case address g of None \<Rightarrow> Map.empty | Some a \<Rightarrow> a)"

text \<open>Lines 233 to 247.\<close>

definition build_weather :: "weatherData \<Rightarrow> geoData \<Rightarrow> WeatherData" where
  "build_weather w g =
     \<lparr> location = locationName (addr_of g),
       country = (case addr_of g ''country'' of None \<Rightarrow> [] | Some v \<Rightarrow> v),
       temp = Math_round (temperature_2m (current w)),
       feelsLike = Math_round (apparent_temperature (current w)),
       WeatherData.condition = weatherCodeToCondition (current_weather.weather_code (current w)),
       humidity = relative_humidity_2m (current w),
       windSpeed = Math_round (wind_speed_10m (current w)),
       visibility = Num 10,
       pressure = Math_round (surface_pressure (current w)),
       uv = Num 3,
       WeatherData.icon = [],
       WeatherData.sunrise = time_of_day (daily_weather.sunrise (daily w)),
       WeatherData.sunset = time_of_day (daily_weather.sunset (daily w)) \<rparr>"

text \<open>Lines 249 to 255: the first five dates, each with the values at its index.\<close>

definition forecast_day :: "daily_weather \<Rightarrow> nat \<times> jsstring \<Rightarrow> ForecastDay" where
  "forecast_day d = (\<lambda>(i, date).
     \<lparr> date = date,
       maxTemp = Math_round (nth_num (temperature_2m_max d) i),
       minTemp = Math_round (nth_num (temperature_2m_min d) i),
       condition = weatherCodeToCondition (nth_num (daily_weather.weather_code d) i),
       icon = [] \<rparr>)"

definition build_forecast :: "weatherData \<Rightarrow> ForecastDay list" where
  "build_forecast w = map (forecast_day (daily w)) (enumerate 0 (take 5 (time (daily w))))"

text \<open>Lines 257 to 263.\<close>

definition newLocation :: "weatherData \<Rightarrow> geoData \<Rightarrow> jsnum \<Rightarrow> jsnum \<Rightarrow> LocationData" where
  "newLocation w g la lo =
     \<lparr> name = location (build_weather w g),
       lat = la,
       lon = lo,
       weather = Some (build_weather w g),
       forecast = Some (build_forecast w) \<rparr>"

section \<open>The recent-history list\<close>

text \<open>The updater of lines 267 to 270, applied to the list as it is then.\<close>

definition record_recent ::
  "jsnum \<Rightarrow> jsnum \<Rightarrow> LocationData \<Rightarrow> LocationData list \<Rightarrow> LocationData list" where
  "record_recent la lo new prev =
     (let filtered = filter (\<lambda>loc. \<not> (strict_eq (lat loc) la \<and> strict_eq (lon loc) lo)) prev
      in take 5 (new # filtered))"

section \<open>The component's state and its effects\<close>

text \<open>
  The four state variables of lines 66 to 73, and, beside them, what the component has
  done to the outside: the requests it has sent, the notifications it has shown and the
  errors it has logged, each in order.
\<close>

datatype request =
    WeatherRequest jsnum jsnum
  | ReverseGeocodeRequest jsnum jsnum
  | SearchRequest jsstring

datatype toast =
    WeatherFetched jsstring
  | WeatherFetchFailed
  | CityNotFound
  | CitySearchFailed
  | LocationUnsupported
  | LocatingInfo
  | PermissionDenied
  | PositionUnavailable
  | LocationTimeout
  | LocationFailed

datatype console_entry = WeatherFetchError exn | CitySearchError exn

record app_state =
  selectedLocation :: LocationData
  searchQuery :: jsstring
  loading :: bool
  recentLocations :: "LocationData list"
  requests :: "request list"
  toasts :: "toast list"
  console :: "console_entry list"

text \<open>Lines 66 to 73: the state at the first render.\<close>

definition initial_state :: app_state where
  "initial_state =
     \<lparr> selectedLocation =
         \<lparr> name = seoul, lat = Num 37.5665, lon = Num 126.9780, weather = None, forecast = None \<rparr>,
       searchQuery = [],
       loading = False,
       recentLocations = [],
       requests = [],
       toasts = [],
       console = [] \<rparr>"

section \<open>The coordinate lookup\<close>

text \<open>
  The \<^verbatim>\<open>try\<close> block of \<^verbatim>\<open>fetchWeather\<close>, lines 182 to 272, given what the two requests
  answer: it ends normally or throws, and in both cases leaves a state.  The weather
  response is checked for \<^verbatim>\<open>ok\<close> (line 186); the reverse-geocode response is not.
\<close>

definition fetchWeather_try ::
  "weatherData http \<Rightarrow> geoData http \<Rightarrow> jsnum \<Rightarrow> jsnum \<Rightarrow> app_state \<Rightarrow> (exn + unit) \<times> app_state" where
  "fetchWeather_try wr gr la lo s =
     (let s1 = s\<lparr>requests := requests s @ [WeatherRequest la lo]\<rparr> in
      case wr of
        NetworkError \<Rightarrow> (Inl FetchRejected, s1)
      | Response ok wbody \<Rightarrow>
          if \<not> ok then (Inl WeatherNotOk, s1)
          else
            (case wbody of
               None \<Rightarrow> (Inl JsonRejected, s1)
             | Some w \<Rightarrow>
                 (let s2 = s1\<lparr>requests := requests s1 @ [ReverseGeocodeRequest la lo]\<rparr> in
                  case gr of
                    NetworkError \<Rightarrow> (Inl FetchRejected, s2)
                  | Response gok gbody \<Rightarrow>
                      (case gbody of
                         None \<Rightarrow> (Inl JsonRejected, s2)
                       | Some g \<Rightarrow>
                           (let new = newLocation w g la lo in
                            (Inr (),
                             s2\<lparr>selectedLocation := new,
                                recentLocations := record_recent la lo new (recentLocations s2),
                                toasts := toasts s2 @ [WeatherFetched (name new)]\<rparr>))))))"

text \<open>
  \<^verbatim>\<open>fetchWeather\<close>, lines 179 to 279: the loading flag, the \<^verbatim>\<open>try\<close> block, the
  \<^verbatim>\<open>catch\<close> that logs and notifies, the \<^verbatim>\<open>finally\<close>.  The first component is how the
  promise of the call settles.
\<close>

definition fetchWeather ::
  "weatherData http \<Rightarrow> geoData http \<Rightarrow> jsnum \<Rightarrow> jsnum \<Rightarrow> app_state \<Rightarrow> (exn + unit) \<times> app_state" where
  "fetchWeather wr gr la lo s =
     (let s0 = s\<lparr>loading := True\<rparr>;
          s1 = (case fetchWeather_try wr gr la lo s0 of
                  (Inl e, s') \<Rightarrow>
                    s'\<lparr>console := console s' @ [WeatherFetchError e],
                       toasts := toasts s' @ [WeatherFetchFailed]\<rparr>
                | (Inr u, s') \<Rightarrow> s')
      in (Inr (), s1\<lparr>loading := False\<rparr>))"

section \<open>The search by name\<close>

text \<open>
  The white space and line terminators that \<^verbatim>\<open>String.prototype.trim\<close> removes from both
  ends.
\<close>

definition is_whitespace :: "16 word \<Rightarrow> bool" where
  "is_whitespace c =
     (c \<in> set [0x09, 0x0A, 0x0B, 0x0C, 0x0D, 0x20, 0xA0, 0x1680, 0x2028, 0x2029,
               0x202F, 0x205F, 0x3000, 0xFEFF]
      \<or> (0x2000 \<le> c \<and> c \<le> 0x200A))"

definition trim :: "jsstring \<Rightarrow> jsstring" where
  "trim q = rev (dropWhile is_whitespace (rev (dropWhile is_whitespace q)))"

text \<open>
  \<^verbatim>\<open>encodeURIComponent\<close> throws on a string with a surrogate code unit that is not part
  of a pair; this is where it does not.
\<close>

definition high_surrogate :: "16 word \<Rightarrow> bool" where
  "high_surrogate c = (0xD800 \<le> c \<and> c \<le> 0xDBFF)"

definition low_surrogate :: "16 word \<Rightarrow> bool" where
  "low_surrogate c = (0xDC00 \<le> c \<and> c \<le> 0xDFFF)"

fun well_formed :: "jsstring \<Rightarrow> bool" where
  "well_formed [] = True"
| "well_formed [c] = (\<not> high_surrogate c \<and> \<not> low_surrogate c)"
| "well_formed (c # d # ds) =
     (if high_surrogate c then low_surrogate d \<and> well_formed ds
      else \<not> low_surrogate c \<and> well_formed (d # ds))"

text \<open>
  The \<^verbatim>\<open>try\<close> block of \<^verbatim>\<open>searchCity\<close>, lines 286 to 297.  \<open>parseFloat\<close> stands for the
  function of that name of the language, which gives NaN on a string that does not start
  with a number.
\<close>

definition searchCity_try ::
  "(jsstring \<Rightarrow> jsnum) \<Rightarrow> search_hit list http \<Rightarrow> weatherData http \<Rightarrow> geoData http \<Rightarrow>
     app_state \<Rightarrow> (exn + unit) \<times> app_state" where
  "searchCity_try parseFloat sr wr gr s =
     (if \<not> well_formed (searchQuery s) then (Inl URIError, s)
      else
        (let s1 = s\<lparr>requests := requests s @ [SearchRequest (searchQuery s)]\<rparr> in
         case sr of
           NetworkError \<Rightarrow> (Inl FetchRejected, s1)
         | Response ok body \<Rightarrow>
             (case body of
                None \<Rightarrow> (Inl JsonRejected, s1)
              | Some data \<Rightarrow>
                  (case data of
                     [] \<Rightarrow> (Inr (), s1\<lparr>toasts := toasts s1 @ [CityNotFound]\<rparr>)
                   | hit # rest \<Rightarrow>
                       fetchWeather wr gr (parseFloat (hit_lat hit)) (parseFloat (hit_lon hit)) s1))))"

text \<open>\<^verbatim>\<open>searchCity\<close>, lines 281 to 304.\<close>

definition searchCity ::
  "(jsstring \<Rightarrow> jsnum) \<Rightarrow> search_hit list http \<Rightarrow> weatherData http \<Rightarrow> geoData http \<Rightarrow>
     app_state \<Rightarrow> (exn + unit) \<times> app_state" where
  "searchCity parseFloat sr wr gr s =
     (if trim (searchQuery s) = [] then (Inr (), s)
      else
        (let s0 = s\<lparr>loading := True\<rparr>;
             s1 = (case searchCity_try parseFloat sr wr gr s0 of
                     (Inl e, s') \<Rightarrow>
                       s'\<lparr>console := console s' @ [CitySearchError e],
                          toasts := toasts s' @ [CitySearchFailed]\<rparr>
                   | (Inr u, s') \<Rightarrow> s')
         in (Inr (), s1\<lparr>loading := False\<rparr>)))"

section \<open>The device location\<close>

text \<open>
  What the platform's location service answers: there is none, or a position, or an error
  with its code.
\<close>

datatype geolocation = Unsupported | Position jsnum jsnum | PositionError nat

text \<open>\<^verbatim>\<open>getCurrentLocation\<close>, lines 306 to 338.\<close>

definition getCurrentLocation ::
  "geolocation \<Rightarrow> weatherData http \<Rightarrow> geoData http \<Rightarrow> app_state \<Rightarrow> app_state" where
  "getCurrentLocation geo wr gr s =
     (case geo of
        Unsupported \<Rightarrow> s\<lparr>toasts := toasts s @ [LocationUnsupported]\<rparr>
      | Position la lo \<Rightarrow>
          snd (fetchWeather wr gr la lo (s\<lparr>loading := True, toasts := toasts s @ [LocatingInfo]\<rparr>))
      | PositionError code \<Rightarrow>
          s\<lparr>loading := False,
            toasts := toasts s @ [LocatingInfo] @
              [if code = 1 then PermissionDenied
               else if code = 2 then PositionUnavailable
               else if code = 3 then LocationTimeout
               else LocationFailed]\<rparr>)"

section \<open>The interactions\<close>

text \<open>
  Everything that changes the state: the lookup on mount (line 341), a click on the map
  (line 106), a click on an entry of the recent list (line 390), typing in the search box
  (line 359), a search (lines 360 and 363) and the device location (line 367); each
  with what the remote sources answer to it.
\<close>

datatype event =
    Mount "weatherData http" "geoData http"
  | MapClick jsnum jsnum "weatherData http" "geoData http"
  | RecentClick nat "weatherData http" "geoData http"
  | SetSearchQuery jsstring
  | SearchCity "search_hit list http" "weatherData http" "geoData http"
  | GetCurrentLocation geolocation "weatherData http" "geoData http"

fun step :: "(jsstring \<Rightarrow> jsnum) \<Rightarrow> app_state \<Rightarrow> event \<Rightarrow> app_state" where
  "step pf s (Mount wr gr) =
     snd (fetchWeather wr gr (lat (selectedLocation s)) (lon (selectedLocation s)) s)"
| "step pf s (MapClick la lo wr gr) = snd (fetchWeather wr gr la lo s)"
| "step pf s (RecentClick idx wr gr) =
     (if idx < length (recentLocations s)
      then snd (fetchWeather wr gr (lat (recentLocations s ! idx)) (lon (recentLocations s ! idx)) s)
      else s)"
| "step pf s (SetSearchQuery q) = s\<lparr>searchQuery := q\<rparr>"
| "step pf s (SearchCity sr wr gr) = snd (searchCity pf sr wr gr s)"
| "step pf s (GetCurrentLocation geo wr gr) = getCurrentLocation geo wr gr s"

definition run :: "(jsstring \<Rightarrow> jsnum) \<Rightarrow> event list \<Rightarrow> app_state" where
  "run pf es = foldl (step pf) initial_state es"

text \<open>
  Two locations have the same coordinates for the program when line 268 says so, by
  strict equality of the latitudes and of the longitudes.
\<close>

definition same_coords :: "LocationData \<Rightarrow> LocationData \<Rightarrow> bool" where
  "same_coords a b = (strict_eq (lat a) (lat b) \<and> strict_eq (lon a) (lon b))"

fun no_shared_coords :: "LocationData list \<Rightarrow> bool" where
  "no_shared_coords [] = True"
| "no_shared_coords (x # xs) = (list_all (\<lambda>y. \<not> same_coords x y) xs \<and> no_shared_coords xs)"

text \<open>
  The invariant of the recent-history list: at most five entries, no two of them with the
  same coordinates.
\<close>

definition history_ok :: "LocationData list \<Rightarrow> bool" where
  "history_ok h = (length h \<le> 5 \<and> no_shared_coords h)"

text \<open>
  The coordinates of an entry as a pair, and the entries whose coordinates are numbers, as
  the coordinates of the specification's data model are (a latitude in [-90, 90], a
  longitude in [-180, 180]).
\<close>

definition coords :: "LocationData \<Rightarrow> jsnum \<times> jsnum" where
  "coords loc = (lat loc, lon loc)"

fun is_num :: "jsnum \<Rightarrow> bool" where
  "is_num (Num x) = True"
| "is_num NaN = False"

definition numeric_coords :: "LocationData \<Rightarrow> bool" where
  "numeric_coords loc = (is_num (lat loc) \<and> is_num (lon loc))"

section \<open>Outcomes of a lookup and example inputs\<close>

text \<open>The weather request fails: a network error or a status that is not a success.\<close>

definition weather_failed :: "weatherData http \<Rightarrow> bool" where
  "weather_failed wr = (case wr of NetworkError \<Rightarrow> True | Response ok b \<Rightarrow> \<not> ok)"

text \<open>
  A value is the whole number nearest to another: it is whole and at most a half away.
  NaN stays NaN.
\<close>

definition nearest_whole :: "jsnum \<Rightarrow> jsnum \<Rightarrow> bool" where
  "nearest_whole out inp =
     (case inp of
        NaN \<Rightarrow> out = NaN
      | Num x \<Rightarrow> (case out of NaN \<Rightarrow> False | Num y \<Rightarrow> y = of_int \<lfloor>y\<rfloor> \<and> \<bar>y - x\<bar> \<le> 1 / 2))"

text \<open>
  The scenario of section 8 of the specification: a weather response with
  a temperature of 18.4 and the weather code 1, seven daily entries, and an address
  whose only field is the city.
\<close>

definition example_weather :: weatherData where
  "example_weather =
     \<lparr> current =
         \<lparr> temperature_2m = Num 18.4,
           relative_humidity_2m = Num 55,
           apparent_temperature = Num 17.5,
           current_weather.weather_code = Num 1,
           wind_speed_10m = Num 3.2,
           surface_pressure = Num 1012.6 \<rparr>,
       daily =
         \<lparr> time = [[0x30], [0x31], [0x32], [0x33], [0x34], [0x35], [0x36]],
           daily_weather.weather_code = [Num 1, Num 65, Num 0, Num 95, Num 71, Num 3, Num 2],
           temperature_2m_max = [Num 20.5, Num 21.4, Num 19, Num 18.2, Num 2.5, Num 7, Num 9],
           temperature_2m_min = [Num 10.2, Num 11, Num 9.5, Num 8, Num (- 3.5), Num 0, Num 1],
           daily_weather.sunrise = [[0x64, 0x54, 0x30, 0x36, 0x3A, 0x33, 0x30]],
           daily_weather.sunset = [[0x64, 0x54, 0x31, 0x38, 0x3A, 0x33, 0x30]] \<rparr> \<rparr>"

definition seoul_latin :: jsstring where
  "seoul_latin = [0x53, 0x65, 0x6F, 0x75, 0x6C]"

definition example_geo :: geoData where
  "example_geo = \<lparr> address = Some [''city'' \<mapsto> seoul_latin] \<rparr>"

text \<open>A reverse-geocode body without an address, as an error answer has.\<close>

definition geo_no_address :: geoData where
  "geo_no_address = \<lparr> address = None \<rparr>"

definition weather_ok :: "weatherData http" where
  "weather_ok = Response True (Some example_weather)"

definition geo_ok :: "geoData http" where
  "geo_ok = Response True (Some example_geo)"

section \<open>Theorems\<close>

subsection \<open>The condition labels\<close>

lemma weatherCodeToCondition_int:
  "weatherCodeToCondition (Num (of_int c)) =
     (if c = 0 then label_clear
      else if c \<le> 3 then label_partly_cloudy
      else if c \<le> 48 then label_fog
      else if c \<le> 67 then label_rain
      else if c \<le> 77 then label_snow
      else if c \<le> 82 then label_showers
      else if c \<le> 86 then label_snow
      else label_thunderstorm)"
proof -
  have le: "(real_of_int c \<le> of_int k) = (c \<le> k)" for k
    by simp
  have "(real_of_int c \<le> 3) = (c \<le> 3)" "(real_of_int c \<le> 48) = (c \<le> 48)"
    "(real_of_int c \<le> 67) = (c \<le> 67)" "(real_of_int c \<le> 77) = (c \<le> 77)"
    "(real_of_int c \<le> 82) = (c \<le> 82)" "(real_of_int c \<le> 86) = (c \<le> 86)"
    using le [of 3] le [of 48] le [of 67] le [of 77] le [of 82] le [of 86] by simp_all
  then show ?thesis by simp
qed

text \<open>
  Claim C1.  For every integer weather code from 0 to 99 the condition label is the
  label of the first band of the table that holds the code: 0 is clear, 1 to 3 partly
  cloudy, 4 to 48 fog, 49 to 67 rain, 68 to 77 snow, 78 to 82 showers, 83 to 86 snow,
  and every higher code thunderstorm.  The result is one of the eight labels of the
  table's rows (the two snow rows carry the same label).
\<close>

theorem weatherCodeToCondition_band_table:
  "0 \<le> c \<Longrightarrow> c \<le> 99 \<Longrightarrow>
     first_band band_table c = Some (weatherCodeToCondition (Num (of_int c))) \<and>
     weatherCodeToCondition (Num (of_int c)) \<in> set (map (\<lambda>(lo, hi, l). l) band_table) \<and>
     length band_table = 8"
  unfolding weatherCodeToCondition_int band_table_def
  by (simp del: of_int_eq_0_iff)

theorem weatherCodeToCondition_band_table_witness:
  "weatherCodeToCondition (Num 0) = label_clear \<and>
   weatherCodeToCondition (Num 65) = label_rain \<and>
   weatherCodeToCondition (Num 95) = label_thunderstorm \<and>
   first_band band_table 65 = Some label_rain"
  using weatherCodeToCondition_band_table [of 65] weatherCodeToCondition_band_table [of 0]
    weatherCodeToCondition_band_table [of 95]
  by simp

subsection \<open>The recent-history list and the failing weather request\<close>

lemma fetchWeather_fulfilled: "fst (fetchWeather wr gr la lo s) = Inr ()"
  by (simp add: fetchWeather_def Let_def)

lemma fetchWeather_recent:
  "recentLocations (snd (fetchWeather wr gr la lo s)) =
     (case (wr, gr) of
        (Response True (Some w), Response gok (Some g)) \<Rightarrow>
          record_recent la lo (newLocation w g la lo) (recentLocations s)
      | _ \<Rightarrow> recentLocations s)"
  by (simp add: fetchWeather_def fetchWeather_try_def Let_def
      split: http.splits option.splits bool.splits)

lemma fetchWeather_selected:
  "selectedLocation (snd (fetchWeather wr gr la lo s)) =
     (case (wr, gr) of
        (Response True (Some w), Response gok (Some g)) \<Rightarrow> newLocation w g la lo
      | _ \<Rightarrow> selectedLocation s)"
  by (simp add: fetchWeather_def fetchWeather_try_def Let_def
      split: http.splits option.splits bool.splits)

lemma length_record_recent: "length (record_recent la lo new prev) \<le> 5"
  by (simp add: record_recent_def Let_def)

lemma strict_eq_sym: "strict_eq a b = strict_eq b a"
  by (cases a; cases b) auto

lemma strict_eq_num: "is_num b \<Longrightarrow> strict_eq a b = (a = b)"
  by (cases a; cases b) auto

lemma same_coords_sym: "same_coords a b = same_coords b a"
  using strict_eq_sym by (auto simp add: same_coords_def)

lemma same_coords_numeric: "numeric_coords b \<Longrightarrow> same_coords a b = (coords a = coords b)"
  by (simp add: same_coords_def numeric_coords_def coords_def strict_eq_num)

lemma record_recent_shape:
  "record_recent (lat new) (lon new) new prev =
     new # take 4 (filter (\<lambda>loc. \<not> same_coords loc new) prev)"
  by (simp add: record_recent_def same_coords_def)

lemma no_shared_filter: "no_shared_coords xs \<Longrightarrow> no_shared_coords (filter P xs)"
  by (induction xs) (auto simp add: list_all_iff)

lemma no_shared_take: "no_shared_coords xs \<Longrightarrow> no_shared_coords (take n xs)"
proof (induction xs arbitrary: n)
  case Nil
  then show ?case by simp
next
  case (Cons x xs)
  show ?case
  proof (cases n)
    case 0
    then show ?thesis by simp
  next
    case (Suc m)
    have "list_all (\<lambda>y. \<not> same_coords x y) (take m xs)"
      using Cons.prems by (auto simp add: list_all_iff dest: in_set_takeD)
    then show ?thesis
      using Cons Suc by simp
  qed
qed

lemma no_shared_record_recent:
  assumes "no_shared_coords prev"
  shows "no_shared_coords (record_recent (lat new) (lon new) new prev)"
proof -
  let ?f = "filter (\<lambda>loc. \<not> same_coords loc new) prev"
  have "no_shared_coords (take 4 ?f)"
    using assms by (simp add: no_shared_filter no_shared_take)
  moreover have "list_all (\<lambda>y. \<not> same_coords new y) (take 4 ?f)"
    by (auto simp add: list_all_iff same_coords_sym [of new] dest: in_set_takeD)
  ultimately show ?thesis
    unfolding record_recent_shape by simp
qed

lemma history_ok_record_recent:
  "history_ok h \<Longrightarrow> history_ok (record_recent (lat new) (lon new) new h)"
  unfolding history_ok_def using length_record_recent no_shared_record_recent by blast

lemma no_shared_distinct:
  "no_shared_coords h \<Longrightarrow> list_all numeric_coords h \<Longrightarrow> distinct (map coords h)"
proof (induction h)
  case Nil
  then show ?case by simp
next
  case (Cons x xs)
  have "coords x \<noteq> coords y" if "y \<in> set xs" for y
  proof -
    have "\<not> same_coords x y" "numeric_coords y"
      using Cons.prems that by (auto simp add: list_all_iff)
    then show ?thesis
      by (simp add: same_coords_numeric)
  qed
  then have "coords x \<notin> set (map coords xs)"
    by auto
  then show ?case
    using Cons by simp
qed

lemma newLocation_coords: "lat (newLocation w g la lo) = la" "lon (newLocation w g la lo) = lo"
  by (simp_all add: newLocation_def)

lemma history_ok_fetchWeather:
  assumes "history_ok (recentLocations s)"
  shows "history_ok (recentLocations (snd (fetchWeather wr gr la lo s)))"
proof -
  have "history_ok (record_recent la lo (newLocation w g la lo) (recentLocations s))" for w g
    using history_ok_record_recent [OF assms, of "newLocation w g la lo"]
    by (simp add: newLocation_coords)
  then show ?thesis
    using assms by (simp add: fetchWeather_recent split: http.splits option.splits bool.splits)
qed

lemma history_ok_searchCity:
  assumes ok: "history_ok (recentLocations s)"
  shows "history_ok (recentLocations (snd (searchCity pf sr wr gr s)))"
proof -
  obtain r s' where eq: "searchCity_try pf sr wr gr (s\<lparr>loading := True\<rparr>) = (r, s')"
    by (cases "searchCity_try pf sr wr gr (s\<lparr>loading := True\<rparr>)")
  have "history_ok (recentLocations (snd (searchCity_try pf sr wr gr (s\<lparr>loading := True\<rparr>))))"
    using ok history_ok_fetchWeather
    by (simp add: searchCity_try_def Let_def split: http.splits option.splits list.splits)
  then have "history_ok (recentLocations s')"
    by (simp add: eq)
  then show ?thesis
    using ok by (cases r) (simp_all add: searchCity_def eq Let_def)
qed

lemma history_ok_step:
  "history_ok (recentLocations s) \<Longrightarrow> history_ok (recentLocations (step pf s e))"
  by (cases e) (simp_all add: history_ok_fetchWeather history_ok_searchCity getCurrentLocation_def
      split: geolocation.splits)

lemma history_ok_foldl:
  "history_ok (recentLocations s) \<Longrightarrow> history_ok (recentLocations (foldl (step pf) s es))"
  by (induction es arbitrary: s) (simp_all add: history_ok_step)

lemma history_ok_initial: "history_ok (recentLocations initial_state)"
  by (simp add: initial_state_def history_ok_def)

text \<open>
  Claim C3.  The recent-history list has at most five entries and no two entries with the
  same coordinates: this holds of the first state, every record operation keeps it, every
  interaction keeps it, and so it holds after any sequence of interactions, whatever the
  number of lookups and whether their coordinates repeat.  Where the coordinates of the
  entries are numbers, the pairs of latitude and longitude of the list are pairwise
  different.
\<close>

theorem history_invariant:
  "history_ok (recentLocations initial_state) \<and>
   (history_ok h \<longrightarrow> history_ok (record_recent (lat new) (lon new) new h)) \<and>
   (history_ok (recentLocations s) \<longrightarrow> history_ok (recentLocations (step pf s e))) \<and>
   history_ok (recentLocations (run pf es)) \<and>
   length (recentLocations (run pf es)) \<le> 5 \<and>
   (list_all numeric_coords (recentLocations (run pf es)) \<longrightarrow>
      distinct (map coords (recentLocations (run pf es))))"
proof -
  have reach: "history_ok (recentLocations (run pf es))"
    unfolding run_def using history_ok_initial history_ok_foldl by blast
  then have "length (recentLocations (run pf es)) \<le> 5"
    and "list_all numeric_coords (recentLocations (run pf es)) \<longrightarrow>
      distinct (map coords (recentLocations (run pf es)))"
    using no_shared_distinct by (auto simp add: history_ok_def)
  then show ?thesis
    using reach history_ok_initial history_ok_record_recent history_ok_step by blast
qed

theorem history_invariant_witness:
  "history_ok (recentLocations
     (run (\<lambda>q. NaN)
        [MapClick (Num 1) (Num 2) weather_ok geo_ok,
         MapClick (Num 3) (Num 4) weather_ok geo_ok,
         MapClick (Num 1) (Num 2) weather_ok geo_ok])) \<and>
   map coords (recentLocations
     (run (\<lambda>q. NaN)
        [MapClick (Num 1) (Num 2) weather_ok geo_ok,
         MapClick (Num 3) (Num 4) weather_ok geo_ok,
         MapClick (Num 1) (Num 2) weather_ok geo_ok])) =
     [(Num 1, Num 2), (Num 3, Num 4)]"
  using history_invariant [of "[]" "selectedLocation initial_state" initial_state "\<lambda>q. NaN"
      "SetSearchQuery []"
      "[MapClick (Num 1) (Num 2) weather_ok geo_ok,
        MapClick (Num 3) (Num 4) weather_ok geo_ok,
        MapClick (Num 1) (Num 2) weather_ok geo_ok]"]
  by (simp add: run_def fetchWeather_recent weather_ok_def geo_ok_def record_recent_def
      newLocation_coords coords_def initial_state_def numeric_coords_def)

text \<open>
  Claim C2.  Recording a location removes every entry with the coordinates of the new
  one, puts the new entry first and keeps at most five entries; the entries kept after
  the first are the first four of the others, in their order, and none of them has the
  coordinates of the new one.  With numbers for coordinates the result has exactly one
  entry with the new pair of coordinates, the new one, at the head; so recording a second
  location with the same pair leaves exactly one entry for it, the second, first in the
  list.  The lookup always records a location built with the coordinates it was called
  with (\<open>newLocation_coords\<close>, \<open>fetchWeather_recent\<close>), which is the form of the operation
  stated here.
\<close>

theorem record_recent_spec:
  "record_recent (lat new) (lon new) new prev =
     new # take 4 (filter (\<lambda>loc. \<not> same_coords loc new) prev) \<and>
   length (record_recent (lat new) (lon new) new prev) \<le> 5 \<and>
   hd (record_recent (lat new) (lon new) new prev) = new \<and>
   filter (\<lambda>loc. same_coords loc new) (tl (record_recent (lat new) (lon new) new prev)) = [] \<and>
   (numeric_coords new \<longrightarrow>
      filter (\<lambda>loc. coords loc = coords new) (record_recent (lat new) (lon new) new prev) =
        [new]) \<and>
   (numeric_coords new \<and> coords new' = coords new \<longrightarrow>
      hd (record_recent (lat new') (lon new') new'
            (record_recent (lat new) (lon new) new prev)) = new' \<and>
      filter (\<lambda>loc. coords loc = coords new)
        (record_recent (lat new') (lon new') new'
           (record_recent (lat new) (lon new) new prev)) = [new'])"
proof -
  have rest: "filter (\<lambda>loc. same_coords loc n) (tl (record_recent (lat n) (lon n) n p)) = []"
    for n p
  proof -
    have "\<forall>x \<in> set (take 4 (filter (\<lambda>loc. \<not> same_coords loc n) p)). \<not> same_coords x n"
      by (auto dest: in_set_takeD)
    then have "filter (\<lambda>loc. same_coords loc n)
        (take 4 (filter (\<lambda>loc. \<not> same_coords loc n) p)) = []"
      unfolding filter_empty_conv by blast
    then show ?thesis
      unfolding record_recent_shape by simp
  qed
  have head: "hd (record_recent (lat n) (lon n) n p) = n" for n p
    unfolding record_recent_shape by simp
  have once: "filter (\<lambda>loc. coords loc = coords n) (record_recent (lat n) (lon n) n p) = [n]"
    if "numeric_coords n" for n p
  proof -
    have "(\<lambda>loc. coords loc = coords n) = (\<lambda>loc. same_coords loc n)"
      using that by (simp add: same_coords_numeric)
    moreover have "record_recent (lat n) (lon n) n p = n # tl (record_recent (lat n) (lon n) n p)"
      unfolding record_recent_shape by simp
    moreover have "same_coords n n"
      using that by (simp add: same_coords_numeric)
    ultimately show ?thesis
      using rest [of n p] by (metis filter.simps(2))
  qed
  have twice: "filter (\<lambda>loc. coords loc = coords new)
        (record_recent (lat new') (lon new') new'
           (record_recent (lat new) (lon new) new prev)) = [new']"
    if "numeric_coords new" "coords new' = coords new"
  proof -
    have "numeric_coords new'"
      using that by (simp add: numeric_coords_def coords_def)
    then show ?thesis
      using once [of new' "record_recent (lat new) (lon new) new prev"] that by simp
  qed
  show ?thesis
    using record_recent_shape [of new prev] length_record_recent [of "lat new" "lon new" new prev]
      head [of new prev] rest [of new prev] once [of new prev]
      head [of new' "record_recent (lat new) (lon new) new prev"] twice
    by blast
qed

theorem record_recent_spec_witness:
  "record_recent (Num 1) (Num 2) (newLocation example_weather geo_no_address (Num 1) (Num 2))
     [newLocation example_weather example_geo (Num 1) (Num 2),
      newLocation example_weather example_geo (Num 1) (Num 3)] =
   [newLocation example_weather geo_no_address (Num 1) (Num 2),
    newLocation example_weather example_geo (Num 1) (Num 3)]"
  using record_recent_spec [of "newLocation example_weather geo_no_address (Num 1) (Num 2)"
      "[newLocation example_weather example_geo (Num 1) (Num 2),
        newLocation example_weather example_geo (Num 1) (Num 3)]"]
  by (simp add: newLocation_coords same_coords_def)

text \<open>
  Claim C4.  When the weather request fails, by a network error or a status that is not a
  success, the lookup fails as a whole: the selected location and the recent-history
  list are as before, no reverse-geocode request is sent, one error notification is
  shown, and the call itself ends normally, the failure caught inside it.
\<close>

theorem fetchWeather_weather_failure:
  "weather_failed wr \<Longrightarrow>
     fst (fetchWeather wr gr la lo s) = Inr () \<and>
     selectedLocation (snd (fetchWeather wr gr la lo s)) = selectedLocation s \<and>
     recentLocations (snd (fetchWeather wr gr la lo s)) = recentLocations s \<and>
     searchQuery (snd (fetchWeather wr gr la lo s)) = searchQuery s \<and>
     requests (snd (fetchWeather wr gr la lo s)) = requests s @ [WeatherRequest la lo] \<and>
     toasts (snd (fetchWeather wr gr la lo s)) = toasts s @ [WeatherFetchFailed]"
  by (cases wr) (simp_all add: weather_failed_def fetchWeather_def fetchWeather_try_def Let_def)

theorem fetchWeather_weather_failure_witness:
  "weather_failed (Response False None) \<and>
   selectedLocation
     (snd (fetchWeather (Response False None) geo_ok (Num 1) (Num 2) initial_state)) =
     selectedLocation initial_state \<and>
   recentLocations
     (snd (fetchWeather (Response False None) geo_ok (Num 1) (Num 2) initial_state)) = [] \<and>
   toasts
     (snd (fetchWeather (Response False None) geo_ok (Num 1) (Num 2) initial_state)) =
     [WeatherFetchFailed]"
  using fetchWeather_weather_failure
    [of "Response False None" geo_ok "Num 1" "Num 2" initial_state]
  by (simp add: weather_failed_def initial_state_def)

text \<open>
  Claim C7.  When the search text is empty or has only white space, the search by name
  returns at once: the state after it, with the list of the requests sent, is the state
  before it.
\<close>

theorem searchCity_blank_query:
  "\<forall>c \<in> set (searchQuery s). is_whitespace c \<Longrightarrow> searchCity pf sr wr gr s = (Inr (), s)"
proof -
  assume "\<forall>c \<in> set (searchQuery s). is_whitespace c"
  then have blank: "dropWhile is_whitespace (searchQuery s) = []"
    using dropWhile_eq_Nil_conv [of is_whitespace "searchQuery s"] by blast
  have "trim (searchQuery s) = []"
    unfolding trim_def blank by simp
  then show ?thesis
    by (simp add: searchCity_def)
qed

theorem searchCity_blank_query_witness:
  "searchCity (\<lambda>q. NaN) (Response True (Some [])) weather_ok geo_ok
     (initial_state\<lparr>searchQuery := [0x20, 0x09, 0x3000]\<rparr>) =
   (Inr (), initial_state\<lparr>searchQuery := [0x20, 0x09, 0x3000]\<rparr>)"
  using searchCity_blank_query [of "initial_state\<lparr>searchQuery := [0x20, 0x09, 0x3000]\<rparr>"
      "\<lambda>q. NaN" "Response True (Some [])" weather_ok geo_ok]
  by (simp add: is_whitespace_def)

text \<open>
  Claim C10.  After a lookup whose \<^verbatim>\<open>try\<close> block ends normally, the recent-history list
  is not empty and its first entry is the selected location.
\<close>

theorem selected_is_head_of_history:
  "fst (fetchWeather_try wr gr la lo (s\<lparr>loading := True\<rparr>)) = Inr () \<Longrightarrow>
     recentLocations (snd (fetchWeather wr gr la lo s)) \<noteq> [] \<and>
     hd (recentLocations (snd (fetchWeather wr gr la lo s))) =
       selectedLocation (snd (fetchWeather wr gr la lo s))"
  by (auto simp add: fetchWeather_def fetchWeather_try_def Let_def record_recent_def
      split: http.splits option.splits if_splits)

theorem selected_is_head_of_history_witness:
  "fst (fetchWeather_try weather_ok geo_ok (Num 1) (Num 2) (initial_state\<lparr>loading := True\<rparr>)) =
     Inr () \<and>
   hd (recentLocations (snd (fetchWeather weather_ok geo_ok (Num 1) (Num 2) initial_state))) =
     selectedLocation (snd (fetchWeather weather_ok geo_ok (Num 1) (Num 2) initial_state)) \<and>
   lat (selectedLocation (snd (fetchWeather weather_ok geo_ok (Num 1) (Num 2) initial_state))) =
     Num 1"
proof -
  have h: "fst (fetchWeather_try weather_ok geo_ok (Num 1) (Num 2)
      (initial_state\<lparr>loading := True\<rparr>)) = Inr ()"
    by (simp add: fetchWeather_try_def weather_ok_def geo_ok_def Let_def)
  show ?thesis
    using h selected_is_head_of_history [OF h]
    by (simp add: fetchWeather_selected weather_ok_def geo_ok_def newLocation_coords)
qed

subsection \<open>The display name\<close>

lemma push_field_eq:
  "push_field addr k parts = parts @ map (field_value addr) (filter (populated addr) [k])"
  by (simp add: push_field_def populated_def field_value_def split: option.splits)

lemma populated_Cons2:
  "map f (filter p (x # y # ys)) = map f (filter p [x]) @ map f (filter p (y # ys))"
  by simp

lemma locationParts_eq: "locationParts addr = populated_values addr"
  unfolding locationParts_def populated_values_def priority_fields_def Let_def push_field_eq
  by (simp only: populated_Cons2 append_assoc append_Nil)

lemma name_shape:
  "(if length ps > 0 then join sep (take 2 ps) else u) =
     (case ps of [] \<Rightarrow> u | [a] \<Rightarrow> a | a # b # rest \<Rightarrow> a @ sep @ b)"
  by (simp split: list.splits)

lemma locationName_eq: "locationName addr = display_name_by_priority addr"
  unfolding locationName_def display_name_by_priority_def locationParts_eq by (rule name_shape)

lemma unpopulated_values:
  "\<forall>k \<in> set ks. \<not> populated addr k \<Longrightarrow> map (field_value addr) (filter (populated addr) ks) = []"
  by (simp add: filter_empty_conv)

lemma locationName_unknown:
  "\<forall>k \<in> set priority_fields. \<not> populated addr k \<Longrightarrow> locationName addr = unknown_location"
  using unpopulated_values [of priority_fields addr]
  by (simp add: locationName_eq display_name_by_priority_def populated_values_def)

lemma populated_values_split:
  "populated_values addr =
     map (field_value addr) (filter (populated addr) [''neighbourhood'']) @
     map (field_value addr) (filter (populated addr)
       [''suburb'', ''village'', ''hamlet'', ''city_district'', ''district'', ''borough'']) @
     map (field_value addr) (filter (populated addr) [''city'']) @
     map (field_value addr) (filter (populated addr) [''town'', ''county''])"
  unfolding populated_values_def priority_fields_def
  by (simp only: populated_Cons2 append_assoc append_Nil)

lemma spec_values_eq:
  "\<not> populated addr ''city_district'' \<Longrightarrow> populated_values addr = spec_values addr"
  by (simp add: populated_values_def spec_values_def priority_fields_def spec_fields_def)

text \<open>
  Claim C6, as the code has it.  The display name is made of the populated fields of the
  address in the order neighbourhood, suburb, village, hamlet, then city district,
  district, borough, then city, town, county: the first two of them joined by the
  separator, the only one when there is one, the placeholder when none of the ten is
  populated.  With the neighbourhood and the city both populated the name starts with the
  neighbourhood, followed by the next populated field in that order, which is the city
  when no field between them is populated.  Where the city district is not populated, the
  name is the one the nine fields of the specification's list give.
\<close>

theorem locationName_priority:
  "locationName addr = display_name_by_priority addr \<and>
   ((\<forall>k \<in> set priority_fields. \<not> populated addr k) \<longrightarrow> locationName addr = unknown_location) \<and>
   (populated addr ''neighbourhood'' \<and> populated addr ''city'' \<longrightarrow>
      (\<exists>nxt rest.
         populated_values addr = field_value addr ''neighbourhood'' # nxt # rest \<and>
         locationName addr = field_value addr ''neighbourhood'' @ separator @ nxt)) \<and>
   (populated addr ''neighbourhood'' \<and> populated addr ''city'' \<and>
    (\<forall>k \<in> set [''suburb'', ''village'', ''hamlet'', ''city_district'', ''district'', ''borough''].
       \<not> populated addr k) \<longrightarrow>
      locationName addr = field_value addr ''neighbourhood'' @ separator @ field_value addr ''city'') \<and>
   (\<not> populated addr ''city_district'' \<longrightarrow> locationName addr = display_name_spec addr)"
proof -
  let ?n = "field_value addr ''neighbourhood''"
  let ?c = "field_value addr ''city''"
  let ?mid = "map (field_value addr) (filter (populated addr)
       [''suburb'', ''village'', ''hamlet'', ''city_district'', ''district'', ''borough''])"
  let ?low = "map (field_value addr) (filter (populated addr) [''town'', ''county''])"
  have both: "populated_values addr = ?n # (?mid @ ?c # ?low)"
    if "populated addr ''neighbourhood''" "populated addr ''city''"
    unfolding populated_values_split using that by simp
  have third: "\<exists>nxt rest. populated_values addr = ?n # nxt # rest \<and>
      locationName addr = ?n @ separator @ nxt"
    if n: "populated addr ''neighbourhood''" and c: "populated addr ''city''"
  proof -
    obtain nxt rest where nr: "?mid @ ?c # ?low = nxt # rest"
      by (cases "?mid @ ?c # ?low") auto
    have "populated_values addr = ?n # nxt # rest"
      using both [OF n c] nr by simp
    then show ?thesis
      by (simp add: locationName_eq display_name_by_priority_def)
  qed
  have fourth: "locationName addr = ?n @ separator @ ?c"
    if n: "populated addr ''neighbourhood''" and c: "populated addr ''city''"
      and m: "\<forall>k \<in> set [''suburb'', ''village'', ''hamlet'', ''city_district'', ''district'', ''borough''].
       \<not> populated addr k"
  proof -
    have "?mid = []"
      using m by (rule unpopulated_values)
    then have "populated_values addr = ?n # ?c # ?low"
      using both [OF n c] by simp
    then show ?thesis
      by (simp add: locationName_eq display_name_by_priority_def)
  qed
  have fifth: "locationName addr = display_name_spec addr"
    if "\<not> populated addr ''city_district''"
    using spec_values_eq [OF that]
    by (simp add: locationName_eq display_name_by_priority_def display_name_spec_def)
  show ?thesis
    using locationName_eq locationName_unknown third fourth fifth by blast
qed

theorem locationName_priority_witness:
  "locationName [''city'' \<mapsto> seoul_latin, ''neighbourhood'' \<mapsto> [0x41]] =
     [0x41] @ separator @ seoul_latin \<and>
   display_name_spec [''city'' \<mapsto> seoul_latin, ''neighbourhood'' \<mapsto> [0x41]] =
     [0x41] @ separator @ seoul_latin \<and>
   locationName [''city'' \<mapsto> seoul_latin] = seoul_latin \<and>
   locationName Map.empty = unknown_location \<and>
   locationName suburb_district_city = [0x53] @ separator @ [0x44]"
  using locationName_priority [of "[''city'' \<mapsto> seoul_latin, ''neighbourhood'' \<mapsto> [0x41]]"]
    locationName_priority [of "[''city'' \<mapsto> seoul_latin]"]
    locationName_priority [of Map.empty]
    locationName_priority [of suburb_district_city]
  by (simp add: populated_def field_value_def priority_fields_def display_name_by_priority_def
      populated_values_def seoul_latin_def suburb_district_city_def display_name_spec_def
      spec_values_def spec_fields_def)

text \<open>
  The claim as the specification states it fails where the city district is populated.
  An address with only the city district has none of the nine fields of the
  specification's list, yet its name is the city district and not the placeholder; and
  with suburb, city district and city populated the name is the suburb and the city
  district, where the nine fields give the suburb and the city.
\<close>

theorem locationName_city_district_counterexample:
  "locationName district_only = [0x41] \<and>
   display_name_spec district_only = unknown_location \<and>
   locationName district_only \<noteq> display_name_spec district_only \<and>
   locationName suburb_district_city = [0x53, 0x2C, 0x20, 0x44] \<and>
   display_name_spec suburb_district_city = [0x53, 0x2C, 0x20, 0x43] \<and>
   locationName suburb_district_city \<noteq> display_name_spec suburb_district_city"
  by (simp add: locationName_def locationParts_def push_field_def display_name_spec_def
      spec_values_def spec_fields_def populated_def field_value_def district_only_def
      suburb_district_city_def separator_def unknown_location_def)

subsection \<open>The failing reverse geocoding\<close>

lemma fetchWeather_toasts:
  "toasts (snd (fetchWeather wr gr la lo s)) =
     (case (wr, gr) of
        (Response True (Some w), Response gok (Some g)) \<Rightarrow>
          toasts s @ [WeatherFetched (name (newLocation w g la lo))]
      | _ \<Rightarrow> toasts s @ [WeatherFetchFailed])"
  by (simp add: fetchWeather_def fetchWeather_try_def Let_def
      split: http.splits option.splits bool.splits)

lemma addr_of_no_address: "address g = None \<Longrightarrow> populated (addr_of g) k = False"
  by (simp add: addr_of_def populated_def)

lemma name_newLocation: "name (newLocation w g la lo) = locationName (addr_of g)"
  by (simp add: newLocation_def build_weather_def)

text \<open>
  Claim C5, as the code has it.  With the weather request answered, a reverse-geocode
  answer whose body can be read but has none of the ten fields populated (so also a body
  without an address, whatever the status of the answer) gives a location named by the
  placeholder, selected and first in the history.  A reverse-geocode request that ends
  in a network error, or whose body cannot be read, makes the whole lookup fail: one error
  notification, the selected location and the history as before.
\<close>

theorem reverse_geocode_outcomes:
  "((\<forall>k \<in> set priority_fields. \<not> populated (addr_of g) k) \<longrightarrow>
      name (selectedLocation
        (snd (fetchWeather (Response True (Some w)) (Response gok (Some g)) la lo s))) =
        unknown_location \<and>
      hd (recentLocations
        (snd (fetchWeather (Response True (Some w)) (Response gok (Some g)) la lo s))) =
        selectedLocation
          (snd (fetchWeather (Response True (Some w)) (Response gok (Some g)) la lo s)) \<and>
      toasts (snd (fetchWeather (Response True (Some w)) (Response gok (Some g)) la lo s)) =
        toasts s @ [WeatherFetched unknown_location]) \<and>
   (gr = NetworkError \<or> gr = Response gok None \<longrightarrow>
      selectedLocation (snd (fetchWeather (Response True (Some w)) gr la lo s)) =
        selectedLocation s \<and>
      recentLocations (snd (fetchWeather (Response True (Some w)) gr la lo s)) =
        recentLocations s \<and>
      toasts (snd (fetchWeather (Response True (Some w)) gr la lo s)) =
        toasts s @ [WeatherFetchFailed])"
proof -
  have degrade: "name (newLocation w g la lo) = unknown_location"
    if "\<forall>k \<in> set priority_fields. \<not> populated (addr_of g) k"
    using locationName_unknown [OF that] by (simp add: name_newLocation)
  have abort: "selectedLocation (snd (fetchWeather (Response True (Some w)) gr la lo s)) =
        selectedLocation s \<and>
      recentLocations (snd (fetchWeather (Response True (Some w)) gr la lo s)) =
        recentLocations s \<and>
      toasts (snd (fetchWeather (Response True (Some w)) gr la lo s)) =
        toasts s @ [WeatherFetchFailed]"
    if "gr = NetworkError \<or> gr = Response gok None"
    using that by (auto simp add: fetchWeather_selected fetchWeather_recent fetchWeather_toasts)
  show ?thesis
    using degrade abort
    by (simp add: fetchWeather_selected fetchWeather_recent fetchWeather_toasts record_recent_def)
qed

theorem reverse_geocode_outcomes_witness:
  "name (selectedLocation
     (snd (fetchWeather weather_ok (Response False (Some geo_no_address)) (Num 1) (Num 2) initial_state))) =
     unknown_location \<and>
   toasts (snd (fetchWeather weather_ok (Response False (Some geo_no_address)) (Num 1) (Num 2) initial_state)) =
     [WeatherFetched unknown_location] \<and>
   recentLocations (snd (fetchWeather weather_ok (Response False None) (Num 1) (Num 2) initial_state)) = [] \<and>
   toasts (snd (fetchWeather weather_ok (Response False None) (Num 1) (Num 2) initial_state)) =
     [WeatherFetchFailed]"
  using reverse_geocode_outcomes [of geo_no_address example_weather False "Num 1" "Num 2" initial_state
      "Response False None"]
  by (simp add: weather_ok_def addr_of_no_address geo_no_address_def initial_state_def)

text \<open>
  The claim as the specification states it fails: with the weather request answered and
  the reverse-geocode request ending in a network error, no location is produced; the
  name shown stays the one of the first state, the history stays empty and the error
  notification is shown.
\<close>

theorem reverse_geocode_network_error_aborts:
  "fst (fetchWeather_try weather_ok NetworkError (Num 1) (Num 2) (initial_state\<lparr>loading := True\<rparr>)) =
     Inl FetchRejected \<and>
   name (selectedLocation (snd (fetchWeather weather_ok NetworkError (Num 1) (Num 2) initial_state))) = seoul \<and>
   seoul \<noteq> unknown_location \<and>
   weather (selectedLocation (snd (fetchWeather weather_ok NetworkError (Num 1) (Num 2) initial_state))) = None \<and>
   recentLocations (snd (fetchWeather weather_ok NetworkError (Num 1) (Num 2) initial_state)) = [] \<and>
   toasts (snd (fetchWeather weather_ok NetworkError (Num 1) (Num 2) initial_state)) = [WeatherFetchFailed]"
  by (simp add: fetchWeather_try_def fetchWeather_selected fetchWeather_recent fetchWeather_toasts
      weather_ok_def initial_state_def seoul_def unknown_location_def Let_def)

subsection \<open>The values of the assembled location\<close>

lemma nearest_whole_Math_round: "nearest_whole (Math_round v) v"
proof (cases v)
  case (Num x)
  have "of_int \<lfloor>x + 1 / 2\<rfloor> \<le> x + 1 / 2" "x + 1 / 2 < of_int \<lfloor>x + 1 / 2\<rfloor> + 1"
    by linarith+
  then have "\<bar>real_of_int \<lfloor>x + 1 / 2\<rfloor> - x\<bar> \<le> 1 / 2"
    by linarith
  then show ?thesis
    by (simp add: Num nearest_whole_def round_half_up_def)
next
  case NaN
  then show ?thesis
    by (simp add: nearest_whole_def)
qed

lemma weather_newLocation: "weather (newLocation w g la lo) = Some (build_weather w g)"
  by (simp add: newLocation_def)

lemma forecast_newLocation: "forecast (newLocation w g la lo) = Some (build_forecast w)"
  by (simp add: newLocation_def)

text \<open>
  Claim C8.  In the location a successful lookup produces, the temperature, the
  feels-like temperature, the wind speed and the pressure are the upstream values
  rounded by \<^verbatim>\<open>Math.round\<close>, each a whole number at most a half away from the upstream
  value; the humidity is the upstream value itself; the visibility is 10 and the UV index
  is 3, whatever the responses.
\<close>

theorem build_weather_values:
  "wr = Response True (Some w) \<Longrightarrow> gr = Response gok (Some g) \<Longrightarrow>
     (\<exists>wd. weather (selectedLocation (snd (fetchWeather wr gr la lo s))) = Some wd \<and>
        temp wd = Math_round (temperature_2m (current w)) \<and>
        nearest_whole (temp wd) (temperature_2m (current w)) \<and>
        feelsLike wd = Math_round (apparent_temperature (current w)) \<and>
        nearest_whole (feelsLike wd) (apparent_temperature (current w)) \<and>
        windSpeed wd = Math_round (wind_speed_10m (current w)) \<and>
        nearest_whole (windSpeed wd) (wind_speed_10m (current w)) \<and>
        pressure wd = Math_round (surface_pressure (current w)) \<and>
        nearest_whole (pressure wd) (surface_pressure (current w)) \<and>
        humidity wd = relative_humidity_2m (current w) \<and>
        visibility wd = Num 10 \<and>
        uv wd = Num 3)"
  by (simp add: fetchWeather_selected weather_newLocation build_weather_def
      nearest_whole_Math_round)

theorem build_weather_values_witness:
  "(\<exists>wd. weather (selectedLocation (snd (fetchWeather weather_ok geo_ok (Num 1) (Num 2) initial_state))) =
       Some wd \<and>
     temp wd = Num 18 \<and> feelsLike wd = Num 18 \<and> windSpeed wd = Num 3 \<and>
     pressure wd = Num 1013 \<and> humidity wd = Num 55 \<and> visibility wd = Num 10 \<and> uv wd = Num 3)"
proof -
  obtain wd where
    "weather (selectedLocation (snd (fetchWeather weather_ok geo_ok (Num 1) (Num 2) initial_state))) = Some wd"
    "temp wd = Math_round (temperature_2m (current example_weather))"
    "feelsLike wd = Math_round (apparent_temperature (current example_weather))"
    "windSpeed wd = Math_round (wind_speed_10m (current example_weather))"
    "pressure wd = Math_round (surface_pressure (current example_weather))"
    "humidity wd = relative_humidity_2m (current example_weather)"
    "visibility wd = Num 10" "uv wd = Num 3"
    using build_weather_values [OF weather_ok_def geo_ok_def, of "Num 1" "Num 2" initial_state] by blast
  then show ?thesis
    by (simp add: example_weather_def round_half_up_def)
qed

lemma length_build_forecast: "length (build_forecast w) = min 5 (length (time (daily w)))"
  by (simp add: build_forecast_def min.commute)

lemma nth_build_forecast:
  assumes "i < length (build_forecast w)"
  shows "build_forecast w ! i = forecast_day (daily w) (i, time (daily w) ! i)"
proof -
  have i: "i < 5" "i < length (time (daily w))"
    using assms by (simp_all add: length_build_forecast)
  then have "enumerate 0 (take 5 (time (daily w))) ! i = (i, time (daily w) ! i)"
    by (simp add: nth_enumerate_eq)
  then show ?thesis
    using i by (simp add: build_forecast_def)
qed

lemma dates_build_forecast: "map date (build_forecast w) = take 5 (time (daily w))"
proof (rule nth_equalityI)
  show "length (map date (build_forecast w)) = length (take 5 (time (daily w)))"
    by (simp add: length_build_forecast min.commute)
next
  fix i
  assume "i < length (map date (build_forecast w))"
  then have i: "i < length (build_forecast w)"
    by simp
  then have "i < 5"
    by (simp add: length_build_forecast)
  then show "map date (build_forecast w) ! i = take 5 (time (daily w)) ! i"
    using i by (simp add: nth_build_forecast forecast_day_def)
qed

text \<open>
  Claim C9.  The forecast of the location a successful lookup produces has as many
  entries as the smaller of 5 and the number of dates of the weather response; its
  dates are the first dates of the response in their order, so the first entry is the
  one of index 0; and the entry at each index carries the values the daily arrays have
  at that index.
\<close>

theorem build_forecast_spec:
  "wr = Response True (Some w) \<Longrightarrow> gr = Response gok (Some g) \<Longrightarrow>
     (\<exists>fc. forecast (selectedLocation (snd (fetchWeather wr gr la lo s))) = Some fc \<and>
        length fc = min 5 (length (time (daily w))) \<and>
        map date fc = take 5 (time (daily w)) \<and>
        (\<forall>i < length fc.
           date (fc ! i) = time (daily w) ! i \<and>
           maxTemp (fc ! i) = Math_round (nth_num (temperature_2m_max (daily w)) i) \<and>
           minTemp (fc ! i) = Math_round (nth_num (temperature_2m_min (daily w)) i) \<and>
           ForecastDay.condition (fc ! i) =
             weatherCodeToCondition (nth_num (daily_weather.weather_code (daily w)) i)))"
  by (simp add: fetchWeather_selected forecast_newLocation length_build_forecast
      dates_build_forecast nth_build_forecast forecast_day_def)

theorem build_forecast_spec_witness:
  "(\<exists>fc. forecast (selectedLocation (snd (fetchWeather weather_ok geo_ok (Num 1) (Num 2) initial_state))) =
       Some fc \<and>
     length fc = 5 \<and>
     map date fc = [[0x30], [0x31], [0x32], [0x33], [0x34]] \<and>
     maxTemp (fc ! 0) = Num 21 \<and>
     minTemp (fc ! 4) = Num (- 3) \<and>
     ForecastDay.condition (fc ! 1) = label_rain)"
proof -
  obtain fc where
    fc: "forecast (selectedLocation (snd (fetchWeather weather_ok geo_ok (Num 1) (Num 2) initial_state))) =
      Some fc"
    and len: "length fc = min 5 (length (time (daily example_weather)))"
    and dates: "map date fc = take 5 (time (daily example_weather))"
    and entries: "\<forall>i < length fc.
           date (fc ! i) = time (daily example_weather) ! i \<and>
           maxTemp (fc ! i) = Math_round (nth_num (temperature_2m_max (daily example_weather)) i) \<and>
           minTemp (fc ! i) = Math_round (nth_num (temperature_2m_min (daily example_weather)) i) \<and>
           ForecastDay.condition (fc ! i) =
             weatherCodeToCondition (nth_num (daily_weather.weather_code (daily example_weather)) i)"
    using build_forecast_spec [OF weather_ok_def geo_ok_def, of "Num 1" "Num 2" initial_state] by blast
  have five: "length fc = 5"
    using len by (simp add: example_weather_def)
  have "maxTemp (fc ! 0) = Num 21" "minTemp (fc ! 4) = Num (- 3)"
    "ForecastDay.condition (fc ! 1) = label_rain"
    using entries five by (simp_all add: example_weather_def nth_num_def round_half_up_def)
  then show ?thesis
    using fc five dates by (simp add: example_weather_def)
qed

end
